theory Spec2Isabelle
  imports Main
begin

section \<open>JavaScript values shared by all modules\<close>

text \<open>
  A thrown JavaScript value, reduced to the four observations the sources make of it:
  \<^verbatim>\<open>error instanceof Error\<close>, \<^verbatim>\<open>error?.name\<close>,
  \<^verbatim>\<open>error?.$metadata?.httpStatusCode\<close> and \<^verbatim>\<open>error?.message\<close>.
  An absent property is \<open>None\<close>.
\<close>

record js_error =
  err_isError :: bool
  err_name :: "string option"
  err_httpStatusCode :: "nat option"
  err_message :: "string option"

text \<open>The completion of a call: it returns a value or it throws.\<close>

datatype 'a outcome = Returns 'a | Throws js_error

text \<open>\<^verbatim>\<open>new Error(msg)\<close>: an \<open>Error\<close> instance named "Error", without SDK metadata.\<close>

definition new_Error :: "string \<Rightarrow> js_error" where
  "new_Error msg =
     \<lparr>err_isError = True, err_name = Some ''Error'', err_httpStatusCode = None,
      err_message = Some msg\<rparr>"

text \<open>A string-valued property inside a template literal: \<^verbatim>\<open>${undefined}\<close> prints "undefined".\<close>

definition template :: "string option \<Rightarrow> string" where
  "template v = (case v of None \<Rightarrow> ''undefined'' | Some s \<Rightarrow> s)"

text \<open>\<^verbatim>\<open>v || d\<close> on an optional string: \<open>undefined\<close> and the empty string are falsy.\<close>

definition or_else :: "string option \<Rightarrow> string \<Rightarrow> string" where
  "or_else v d = (case v of None \<Rightarrow> d | Some s \<Rightarrow> if s = [] then d else s)"

text \<open>
  An optional string under a truthiness test (\<^verbatim>\<open>if (v)\<close>, \<^verbatim>\<open>if (!v)\<close>):
  \<open>Some s\<close> when it is truthy, \<open>None\<close> when it is \<open>undefined\<close>, \<open>null\<close> or empty.
\<close>

definition truthy :: "string option \<Rightarrow> string option" where
  "truthy v = (case v of None \<Rightarrow> None | Some s \<Rightarrow> if s = [] then None else Some s)"

text \<open>A number inside a template literal, for the non-negative integers: its decimal digits.\<close>

fun decimal :: "nat \<Rightarrow> string" where
  "decimal n =
     (if n < 10 then [char_of (48 + n)]
      else decimal (n div 10) @ [char_of (48 + n mod 10)])"

declare decimal.simps [simp del]

text \<open>
  \<^verbatim>\<open>String.prototype.trim\<close>. Strings are lists of code units below 256; the white space
  and line terminators of ECMAScript in that range are TAB, LF, VT, FF, CR, SP and NBSP.
\<close>

definition isWhiteSpace :: "char \<Rightarrow> bool" where
  "isWhiteSpace c = ((of_char c :: nat) \<in> {9, 10, 11, 12, 13, 32, 160})"

definition trim :: "string \<Rightarrow> string" where
  "trim s = rev (dropWhile isWhiteSpace (rev (dropWhile isWhiteSpace s)))"

text \<open>\<^verbatim>\<open>s.endsWith('/')\<close>.\<close>

definition endsWithSlash :: "string \<Rightarrow> bool" where
  "endsWithSlash s = (s \<noteq> [] \<and> last s = CHR ''/'')"

section \<open>Records of utils/download.ts\<close>

text \<open>
  \<open>DownloadResult\<close> and \<open>DownloadConfig\<close>. The fields \<open>folder\<close> and
  \<open>overwrite\<close> of the configuration are optional in the source; a missing
  \<open>overwrite\<close> is falsy and is \<open>False\<close> here. The field \<open>size'\<close> is the
  source's \<open>size\<close>.
\<close>

record DownloadResult =
  fileName :: string
  filePath :: string
  size' :: "nat option"
  folder :: string

record DownloadConfig =
  stream :: string
  fileName :: string
  folder :: "string option"
  overwrite :: bool

section \<open>utils/s3.ts\<close>

subsection \<open>The endpoint pattern\<close>

text \<open>
  The regular expression \<^verbatim>\<open>/s3[.-]([a-z0-9-]+)\.amazonaws\.com/\<close>, used by
  \<^verbatim>\<open>detectBucketRegion\<close> and by \<^verbatim>\<open>getS3Object\<close>.
  \<open>isRegionChar\<close> is the class \<^verbatim>\<open>[a-z0-9-]\<close>. The class excludes the dot that must
  follow the group, so the greedy group is the longest run of class characters and
  backtracking into a shorter run can never succeed.
\<close>

definition isRegionChar :: "char \<Rightarrow> bool" where
  "isRegionChar c =
     (let n = (of_char c :: nat)
      in (97 \<le> n \<and> n \<le> 122) \<or> (48 \<le> n \<and> n \<le> 57) \<or> c = CHR ''-'')"

text \<open>The pattern anchored at the head of the string; the result is capture group 1.\<close>

fun endpointMatchHere :: "string \<Rightarrow> string option" where
  "endpointMatchHere (a # b # c # rest) =
     (if a = CHR ''s'' \<and> b = CHR ''3'' \<and> (c = CHR ''.'' \<or> c = CHR ''-'')
      then (let grp = takeWhile isRegionChar rest;
                after = dropWhile isRegionChar rest
            in if grp \<noteq> [] \<and> take 14 after = ''.amazonaws.com'' then Some grp else None)
      else None)"
| "endpointMatchHere _ = None"

text \<open>\<^verbatim>\<open>message.match(re)\<close> without the global flag: the leftmost position that matches.\<close>

fun endpointMatch :: "string \<Rightarrow> string option" where
  "endpointMatch [] = None"
| "endpointMatch (c # cs) =
     (case endpointMatchHere (c # cs) of
        Some grp \<Rightarrow> Some grp
      | None \<Rightarrow> endpointMatch cs)"

text \<open>
  The test both catch blocks make:
  \<^verbatim>\<open>error?.name === 'PermanentRedirect' || error?.$metadata?.httpStatusCode === 301\<close>.
\<close>

definition isPermanentRedirect :: "js_error \<Rightarrow> bool" where
  "isPermanentRedirect error =
     (err_name error = Some ''PermanentRedirect'' \<or> err_httpStatusCode error = Some 301)"

text \<open>
  The region taken from a failure, as both catch blocks compute it: the redirect test, then
  \<^verbatim>\<open>error?.message?.match(re)\<close>, then
  \<^verbatim>\<open>endpointMatch && endpointMatch[1] !== 's3'\<close>.
\<close>

definition redirectRegion :: "js_error \<Rightarrow> string option" where
  "redirectRegion error =
     (if isPermanentRedirect error
      then (case err_message error of
              None \<Rightarrow> None
            | Some msg \<Rightarrow>
                (case endpointMatch msg of
                   None \<Rightarrow> None
                 | Some grp \<Rightarrow> if grp \<noteq> ''s3'' then Some grp else None))
      else None)"

subsection \<open>The object store\<close>

text \<open>
  Every \<^verbatim>\<open>client.send(command)\<close> is recorded with the region its client is bound to.
  The store answers a request as a function of the requests sent before it, so that a
  retry may be answered differently from the first attempt. The logger calls of this
  module only write lines; they are left out here and modelled for the settings and the
  download module, where the lines matter.
\<close>

datatype s3_request =
    GetBucketLocationCommand string string
  | GetObjectCommand string string string

record GetBucketLocationOutput =
  LocationConstraint :: "string option"

record GetObjectOutput =
  Body :: "string option"
  ContentLength :: "nat option"
  ContentType :: "string option"
  Metadata :: "(string \<times> string) list option"

record s3_store =
  sendGetBucketLocation :: "s3_request list \<Rightarrow> string \<Rightarrow> string \<Rightarrow> GetBucketLocationOutput outcome"
  sendGetObject :: "s3_request list \<Rightarrow> string \<Rightarrow> string \<Rightarrow> string \<Rightarrow> GetObjectOutput outcome"

record S3Object =
  bucket :: string
  key :: string
  region :: "string option"

type_synonym S3Config = S3Object

record S3DownloadResult =
  stream :: string
  contentLength :: "nat option"
  contentType :: "string option"
  metadata :: "(string \<times> string) list option"

subsection \<open>detectBucketRegion\<close>

definition detectBucketRegion ::
  "s3_store \<Rightarrow> string \<Rightarrow> s3_request list \<Rightarrow> string outcome \<times> s3_request list" where
  "detectBucketRegion store bucketName sent =
     (let sent' = sent @ [GetBucketLocationCommand ''us-east-1'' bucketName]
      in case sendGetBucketLocation store sent ''us-east-1'' bucketName of
           Returns response \<Rightarrow>
             (let region = or_else (LocationConstraint response) ''us-east-1''
              in if region = ''EU'' then (Returns ''eu-west-1'', sent')
                 else (Returns region, sent'))
         | Throws error \<Rightarrow>
             (case redirectRegion error of
                Some grp \<Rightarrow> (Returns grp, sent')
              | None \<Rightarrow>
                  (Throws (new_Error (''Could not determine bucket region: ''
                                       @ or_else (err_message error) ''Unknown error'')),
                   sent')))"

subsection \<open>getS3Object\<close>

text \<open>Lines 97 to 112: the region the first client is bound to.\<close>

definition getS3Object_region ::
  "s3_store \<Rightarrow> string option \<Rightarrow> S3Config \<Rightarrow> s3_request list \<Rightarrow> string \<times> s3_request list" where
  "getS3Object_region store AWS_REGION config sent =
     (case truthy (region config) of
        None \<Rightarrow>
          (case detectBucketRegion store (bucket config) sent of
             (Returns r, sent') \<Rightarrow> (r, sent')
           | (Throws error, sent') \<Rightarrow> (or_else AWS_REGION ''us-east-1'', sent'))
      | Some r \<Rightarrow> (r, sent))"

text \<open>The value returned from a response, or the "no content" error.\<close>

definition toDownloadResult :: "GetObjectOutput \<Rightarrow> S3DownloadResult outcome" where
  "toDownloadResult response =
     (case Body response of
        None \<Rightarrow> Throws (new_Error ''No file content received from S3'')
      | Some b \<Rightarrow>
          Returns \<lparr>stream = b, contentLength = ContentLength response,
                   contentType = ContentType response, metadata = Metadata response\<rparr>)"

text \<open>Lines 114 to 184: the fetch, its catch block and the retry inside the catch block.\<close>

definition getS3Object_fetch ::
  "s3_store \<Rightarrow> string \<Rightarrow> S3Config \<Rightarrow> s3_request list
     \<Rightarrow> S3DownloadResult outcome \<times> s3_request list" where
  "getS3Object_fetch store rgn config sent =
     (let sent1 = sent @ [GetObjectCommand rgn (bucket config) (key config)];
          attempt = (case sendGetObject store sent rgn (bucket config) (key config) of
                       Returns response \<Rightarrow> toDownloadResult response
                     | Throws e \<Rightarrow> Throws e)
      in case attempt of
           Returns result \<Rightarrow> (Returns result, sent1)
         | Throws error \<Rightarrow>
             (case redirectRegion error of
                Some correctRegion \<Rightarrow>
                  (let sent2 = sent1 @ [GetObjectCommand correctRegion (bucket config) (key config)]
                   in case sendGetObject store sent1 correctRegion (bucket config) (key config) of
                        Returns response \<Rightarrow> (toDownloadResult response, sent2)
                      | Throws e2 \<Rightarrow> (Throws e2, sent2))
              | None \<Rightarrow> (Throws error, sent1)))"

definition getS3Object ::
  "s3_store \<Rightarrow> string option \<Rightarrow> S3Config \<Rightarrow> s3_request list
     \<Rightarrow> S3DownloadResult outcome \<times> s3_request list" where
  "getS3Object store AWS_REGION config sent =
     (case getS3Object_region store AWS_REGION config sent of
        (rgn, sent') \<Rightarrow> getS3Object_fetch store rgn config sent')"

subsection \<open>parseAndValidateS3Uri\<close>

record ParsedS3Uri = S3Object +
  isValid :: bool
  errorMessage :: "string option"

text \<open>
  The body of the \<^verbatim>\<open>try\<close> block. \<^verbatim>\<open>parseS3Url\<close> belongs to the package
  amazon-s3-url and is a parameter: it returns an \<open>S3Object\<close> or throws.
\<close>

definition parseAndValidateS3Uri_try ::
  "(string \<Rightarrow> S3Object outcome) \<Rightarrow> string \<Rightarrow> ParsedS3Uri outcome" where
  "parseAndValidateS3Uri_try parseS3Url uri =
     (let trimmedUri = trim uri
      in if trimmedUri = []
         then Returns \<lparr>bucket = [], key = [], region = None, isValid = False,
                       errorMessage = Some ''S3 URI cannot be empty''\<rparr>
         else (case parseS3Url trimmedUri of
                 Throws e \<Rightarrow> Throws e
               | Returns s3Object \<Rightarrow>
                   if key s3Object = [] \<or> trim (key s3Object) = []
                   then Returns \<lparr>bucket = bucket s3Object, key = [], region = region s3Object,
                                 isValid = False,
                                 errorMessage = Some ''S3 URI must include a file key (not just a bucket or directory)''\<rparr>
                   else if endsWithSlash (key s3Object)
                   then Returns \<lparr>bucket = bucket s3Object, key = key s3Object,
                                 region = region s3Object, isValid = False,
                                 errorMessage = Some ''S3 URI must point to a file, not a directory (URI ends with /)''\<rparr>
                   else Returns \<lparr>bucket = bucket s3Object, key = key s3Object,
                                 region = region s3Object, isValid = True,
                                 errorMessage = None\<rparr>))"

text \<open>The whole function: the \<^verbatim>\<open>try\<close> block under its \<^verbatim>\<open>catch\<close>.\<close>

definition parseAndValidateS3Uri ::
  "(string \<Rightarrow> S3Object outcome) \<Rightarrow> string \<Rightarrow> ParsedS3Uri outcome" where
  "parseAndValidateS3Uri parseS3Url uri =
     (case parseAndValidateS3Uri_try parseS3Url uri of
        Returns parsed \<Rightarrow> Returns parsed
      | Throws error \<Rightarrow>
          (let msg = (if err_isError error then template (err_message error)
                      else ''Invalid S3 URI format'')
           in Returns \<lparr>bucket = [], key = [], region = None, isValid = False,
                       errorMessage = Some (''Failed to parse S3 URI: '' @ msg)\<rparr>))"

section \<open>Node.js and the editor host\<close>

text \<open>
  The functions of \<^verbatim>\<open>node:path\<close> that the sources call. They differ between
  platforms and are parameters of the model.
\<close>

record node_path =
  path_join :: "string \<Rightarrow> string \<Rightarrow> string"
  path_extname :: "string \<Rightarrow> string"
  path_basename :: "string \<Rightarrow> string \<Rightarrow> string"
  path_isAbsolute :: "string \<Rightarrow> bool"
  path_dirname :: "string \<Rightarrow> string"

text \<open>
  The calls that change the file system: \<^verbatim>\<open>fs.mkdirSync(p, {recursive: true})\<close>,
  \<^verbatim>\<open>fs.createWriteStream(p)\<close>, and \<^verbatim>\<open>pipeline(stream, writeStream)\<close> into the
  stream opened on \<open>p\<close>. Every such call is recorded when it is issued. The file system
  answers as a function of the calls issued before; \<open>None\<close> from a changing call means
  that it completed without throwing.
\<close>

datatype fs_call =
    MkdirRecursive string
  | CreateWriteStream string
  | Pipeline string string

record node_fs =
  fs_existsSync :: "fs_call list \<Rightarrow> string \<Rightarrow> bool"
  fs_mkdirSync :: "fs_call list \<Rightarrow> string \<Rightarrow> js_error option"
  fs_createWriteStream :: "fs_call list \<Rightarrow> string \<Rightarrow> js_error option"
  fs_pipeline :: "fs_call list \<Rightarrow> string \<Rightarrow> string \<Rightarrow> js_error option"
  fs_statSync_size :: "fs_call list \<Rightarrow> string \<Rightarrow> nat outcome"

record S3DownloaderSettings =
  downloadLocation :: string
  customDownloadPath :: string
  alwaysPromptForLocation :: bool

text \<open>
  What the process and the editor provide: \<^verbatim>\<open>os.platform()\<close>, \<^verbatim>\<open>os.homedir()\<close>,
  \<^verbatim>\<open>os.tmpdir()\<close>, two environment variables, the \<^verbatim>\<open>fsPath\<close> of each workspace
  folder, the configuration section "s3Downloader" with its defaults applied, and the
  answer of \<^verbatim>\<open>vscode.window.showOpenDialog\<close> (the \<^verbatim>\<open>fsPath\<close> of each chosen
  folder, or \<open>None\<close> when the dialog is dismissed).
\<close>

record host =
  host_path :: node_path
  host_fs :: node_fs
  os_platform :: string
  os_homedir :: string
  os_tmpdir :: string
  env_USERPROFILE :: "string option"
  env_XDG_DOWNLOAD_DIR :: "string option"
  workspaceFolders :: "string list option"
  configuration :: S3DownloaderSettings
  showOpenDialog :: "string \<Rightarrow> string \<Rightarrow> string list option"

subsection \<open>utils/logger.ts\<close>

datatype LogLevel = INFO | WARNING | ERROR | DEBUG

type_synonym log = "(LogLevel \<times> string) list"

text \<open>
  \<^verbatim>\<open>logger?.info(msg)\<close> and its siblings: the line is appended when a logger was
  supplied (\<open>logger = True\<close>) and nothing happens otherwise.
\<close>

definition logmsg :: "bool \<Rightarrow> LogLevel \<Rightarrow> string \<Rightarrow> log \<Rightarrow> log" where
  "logmsg logger level msg lg = (if logger then lg @ [(level, msg)] else lg)"

section \<open>utils/vscode/settings.ts\<close>

definition getSettings :: "host \<Rightarrow> S3DownloaderSettings" where
  "getSettings h = configuration h"

definition getSystemDownloadsFolder :: "host \<Rightarrow> string" where
  "getSystemDownloadsFolder h =
     (let platform = os_platform h; homeDir = os_homedir h
      in if platform = ''win32''
         then (case truthy (env_USERPROFILE h) of
                 Some profile \<Rightarrow> path_join (host_path h) profile ''Downloads''
               | None \<Rightarrow> path_join (host_path h) homeDir ''Downloads'')
         else if platform = ''darwin''
         then path_join (host_path h) homeDir ''Downloads''
         else if platform = ''linux''
         then or_else (env_XDG_DOWNLOAD_DIR h) (path_join (host_path h) homeDir ''Downloads'')
         else path_join (host_path h) homeDir ''Downloads'')"

definition getSystemTempFolder :: "host \<Rightarrow> bool \<Rightarrow> log \<Rightarrow> string \<times> log" where
  "getSystemTempFolder h logger lg =
     (let tempDir = os_tmpdir h;
          s3TempPath = path_join (host_path h) tempDir ''s3Downloader''
      in (s3TempPath, logmsg logger DEBUG (''Using temp folder: '' @ s3TempPath) lg))"

definition getWorkspaceDownloadFolder :: "host \<Rightarrow> bool \<Rightarrow> log \<Rightarrow> string \<times> log" where
  "getWorkspaceDownloadFolder h logger lg =
     (case workspaceFolders h of
        None \<Rightarrow>
          (getSystemDownloadsFolder h,
           logmsg logger WARNING ''No workspace folder available, falling back to Downloads folder'' lg)
      | Some [] \<Rightarrow>
          (getSystemDownloadsFolder h,
           logmsg logger WARNING ''No workspace folder available, falling back to Downloads folder'' lg)
      | Some (workspaceRoot # others) \<Rightarrow>
          (workspaceRoot, logmsg logger DEBUG (''Using workspace root: '' @ workspaceRoot) lg))"

definition getCustomDownloadFolder ::
  "host \<Rightarrow> fs_call list \<Rightarrow> string \<Rightarrow> bool \<Rightarrow> log \<Rightarrow> string \<times> log" where
  "getCustomDownloadFolder h calls customPath logger lg =
     (if customPath = [] \<or> trim customPath = []
      then (getSystemDownloadsFolder h,
            logmsg logger WARNING ''Custom download path is empty, falling back to Downloads folder'' lg)
      else if \<not> path_isAbsolute (host_path h) customPath
      then (getSystemDownloadsFolder h,
            logmsg logger WARNING ''Falling back to Downloads folder''
              (logmsg logger ERROR (''Custom download path must be absolute: '' @ customPath) lg))
      else (let lg1 = logmsg logger DEBUG (''Using custom download path: '' @ customPath) lg;
                parentDir = path_dirname (host_path h) customPath
            in if \<not> fs_existsSync (host_fs h) calls parentDir
               then (getSystemDownloadsFolder h,
                     logmsg logger WARNING ''Falling back to Downloads folder''
                       (logmsg logger ERROR (''Parent directory does not exist: '' @ parentDir) lg1))
               else (customPath, lg1)))"

text \<open>The result \<open>None\<close> is the source's \<^verbatim>\<open>null\<close>: the caller has to prompt.\<close>

definition getConfiguredDownloadFolder ::
  "host \<Rightarrow> fs_call list \<Rightarrow> bool \<Rightarrow> log \<Rightarrow> string option \<times> log" where
  "getConfiguredDownloadFolder h calls logger lg =
     (let settings = getSettings h
      in if alwaysPromptForLocation settings
         then (None, logmsg logger DEBUG ''Always prompt for location is enabled'' lg)
         else if downloadLocation settings = ''downloads''
         then (Some (getSystemDownloadsFolder h), lg)
         else if downloadLocation settings = ''workspace''
         then (case getWorkspaceDownloadFolder h logger lg of (f, lg') \<Rightarrow> (Some f, lg'))
         else if downloadLocation settings = ''temp''
         then (case getSystemTempFolder h logger lg of (f, lg') \<Rightarrow> (Some f, lg'))
         else if downloadLocation settings = ''custom''
         then (case getCustomDownloadFolder h calls (customDownloadPath settings) logger lg of
                 (f, lg') \<Rightarrow> (Some f, lg'))
         else (Some (getSystemDownloadsFolder h),
               logmsg logger WARNING
                 (''Unknown download location setting: '' @ downloadLocation settings) lg))"

definition promptForDownloadLocation :: "host \<Rightarrow> string \<Rightarrow> string \<Rightarrow> string option" where
  "promptForDownloadLocation h defaultFolder filename =
     (case showOpenDialog h defaultFolder filename of
        None \<Rightarrow> None
      | Some [] \<Rightarrow> None
      | Some (first # others) \<Rightarrow> Some first)"

section \<open>utils/download.ts\<close>

definition ensureDownloadFolderExists ::
  "host \<Rightarrow> string \<Rightarrow> fs_call list \<Rightarrow> js_error option \<times> fs_call list" where
  "ensureDownloadFolderExists h folderPath calls =
     (if \<not> fs_existsSync (host_fs h) calls folderPath
      then (fs_mkdirSync (host_fs h) calls folderPath, calls @ [MkdirRecursive folderPath])
      else (None, calls))"

text \<open>
  The \<^verbatim>\<open>while\<close> loop of \<open>getUniqueFilePath\<close>. It may run forever (when every
  candidate exists), which is the value \<open>None\<close>. The counter is a natural number; the
  source's counter is a double, exact below \<open>2 ^ 53\<close>.
\<close>

partial_function (option) getUniqueFilePath_loop ::
  "(string \<Rightarrow> bool) \<Rightarrow> (nat \<Rightarrow> string) \<Rightarrow> string \<Rightarrow> nat \<Rightarrow> string option" where
  "getUniqueFilePath_loop existsSync candidate uniquePath counter =
     (if existsSync uniquePath
      then getUniqueFilePath_loop existsSync candidate (candidate counter) (counter + 1)
      else Some uniquePath)"

declare getUniqueFilePath_loop.simps [code]

text \<open>
  Line 55: the path tried for a counter, \<^verbatim>\<open>path.join(folderPath,
  `${nameWithoutExt}_${counter}${ext}`)\<close> with \<open>ext\<close> and \<open>nameWithoutExt\<close> as
  lines 51 and 52 compute them.
\<close>

definition suffixedPath :: "host \<Rightarrow> string \<Rightarrow> string \<Rightarrow> nat \<Rightarrow> string" where
  "suffixedPath h folderPath filename counter =
     (let ext = path_extname (host_path h) filename;
          nameWithoutExt = path_basename (host_path h) filename ext
      in path_join (host_path h) folderPath (nameWithoutExt @ ''_'' @ decimal counter @ ext))"

definition getUniqueFilePath ::
  "host \<Rightarrow> fs_call list \<Rightarrow> string \<Rightarrow> string \<Rightarrow> string option" where
  "getUniqueFilePath h calls folderPath filename =
     (let filePath = path_join (host_path h) folderPath filename
      in if \<not> fs_existsSync (host_fs h) calls filePath then Some filePath
         else getUniqueFilePath_loop (fs_existsSync (host_fs h) calls)
                (suffixedPath h folderPath filename) filePath 1)"

text \<open>Lines 93 to 120 of \<open>downloadToFile\<close>: the folder, or the cancellation error.\<close>

definition downloadToFile_folder ::
  "host \<Rightarrow> DownloadConfig \<Rightarrow> bool \<Rightarrow> fs_call list \<Rightarrow> log \<Rightarrow> string outcome \<times> log" where
  "downloadToFile_folder h config logger calls lg =
     (case truthy (folder config) of
        Some given \<Rightarrow> (Returns given, lg)
      | None \<Rightarrow>
          (case getConfiguredDownloadFolder h calls logger lg of
             (configuredFolder, lg1) \<Rightarrow>
               (case truthy configuredFolder of
                  None \<Rightarrow>
                    (let defaultFolder = getSystemDownloadsFolder h
                     in case truthy (promptForDownloadLocation h defaultFolder (fileName config)) of
                          None \<Rightarrow>
                            (Throws (new_Error ''Download cancelled - no folder selected''), lg1)
                        | Some selectedFolder \<Rightarrow>
                            (Returns selectedFolder,
                             logmsg logger INFO
                               (''User selected download folder: '' @ selectedFolder) lg1))
                | Some downloadFolder \<Rightarrow>
                    (Returns downloadFolder,
                     logmsg logger DEBUG
                       (''Using configured download folder: '' @ downloadFolder) lg1))))"

text \<open>Lines 125 to 127: the final path.\<close>

definition downloadToFile_finalPath ::
  "host \<Rightarrow> DownloadConfig \<Rightarrow> fs_call list \<Rightarrow> string \<Rightarrow> string option" where
  "downloadToFile_finalPath h config calls downloadFolder =
     (if overwrite config then Some (path_join (host_path h) downloadFolder (fileName config))
      else getUniqueFilePath h calls downloadFolder (fileName config))"

text \<open>
  \<open>downloadToFile\<close>. The result is \<open>None\<close> when the loop of \<open>getUniqueFilePath\<close>
  does not end; otherwise it is the completion of the call with the file-system calls
  issued and the lines logged.
\<close>

definition downloadToFile ::
  "host \<Rightarrow> DownloadConfig \<Rightarrow> bool \<Rightarrow> fs_call list \<Rightarrow> log
     \<Rightarrow> (DownloadResult outcome \<times> fs_call list \<times> log) option" where
  "downloadToFile h config logger calls lg =
     (case downloadToFile_folder h config logger calls lg of
        (Throws e, lg1) \<Rightarrow> Some (Throws e, calls, lg1)
      | (Returns downloadFolder, lg1) \<Rightarrow>
          (case ensureDownloadFolderExists h downloadFolder calls of
             (Some e, calls1) \<Rightarrow> Some (Throws e, calls1, lg1)
           | (None, calls1) \<Rightarrow>
               (case downloadToFile_finalPath h config calls1 downloadFolder of
                  None \<Rightarrow> None
                | Some finalPath \<Rightarrow>
                    (let lg2 = logmsg logger INFO (''Saving file to: '' @ finalPath) lg1;
                         calls2 = calls1 @ [CreateWriteStream finalPath]
                     in case fs_createWriteStream (host_fs h) calls1 finalPath of
                          Some e \<Rightarrow> Some (Throws e, calls2, lg2)
                        | None \<Rightarrow>
                            (let lg3 = logmsg logger DEBUG ''Writing file to disk...'' lg2;
                                 calls3 = calls2 @ [Pipeline finalPath (DownloadConfig.stream config)]
                             in case fs_pipeline (host_fs h) calls2 finalPath
                                       (DownloadConfig.stream config) of
                                  Some e \<Rightarrow> Some (Throws e, calls3, lg3)
                                | None \<Rightarrow>
                                    (case fs_statSync_size (host_fs h) calls3 finalPath of
                                       Throws e \<Rightarrow> Some (Throws e, calls3, lg3)
                                     | Returns bytes \<Rightarrow>
                                         Some (Returns \<lparr>DownloadResult.fileName = fileName config,
                                                         filePath = finalPath, size' = Some bytes,
                                                         DownloadResult.folder = downloadFolder\<rparr>,
                                               calls3,
                                               logmsg logger INFO
                                                 (''File saved successfully ('' @ decimal bytes
                                                    @ '' bytes)'')
                                                 lg3)))))))"

definition extractFilename :: "string \<Rightarrow> string" where
  "extractFilename keyOrPath =
     (let lastPart = rev (takeWhile (\<lambda>c. c \<noteq> CHR ''/'') (rev keyOrPath))
      in if lastPart = [] then keyOrPath else lastPart)"

section \<open>Example environments\<close>

text \<open>Concrete stores and failures on which the theorems below are exercised.\<close>

definition sample_object :: GetObjectOutput where
  "sample_object =
     \<lparr>Body = Some ''%PDF-1.7'', ContentLength = Some 8,
      ContentType = Some ''application/pdf'', Metadata = None\<rparr>"

definition access_denied :: js_error where
  "access_denied =
     \<lparr>err_isError = True, err_name = Some ''AccessDenied'', err_httpStatusCode = Some 403,
      err_message = Some ''Access Denied''\<rparr>"

definition redirect_error :: "string \<Rightarrow> js_error" where
  "redirect_error endpoint =
     \<lparr>err_isError = True, err_name = Some ''PermanentRedirect'', err_httpStatusCode = Some 301,
      err_message = Some (''The bucket must be addressed using the endpoint '' @ endpoint)\<rparr>"

text \<open>A store whose location query answers with the given marker.\<close>

definition store_located :: "string option \<Rightarrow> s3_store" where
  "store_located marker =
     \<lparr>sendGetBucketLocation = (\<lambda>sent rgn b. Returns \<lparr>LocationConstraint = marker\<rparr>),
      sendGetObject = (\<lambda>sent rgn b k. Returns sample_object)\<rparr>"

text \<open>
  A store that denies the location query, serves objects from one home region and redirects
  every other region to the home region's endpoint.
\<close>

definition store_in :: "string \<Rightarrow> s3_store" where
  "store_in home =
     \<lparr>sendGetBucketLocation = (\<lambda>sent rgn b. Throws access_denied),
      sendGetObject = (\<lambda>sent rgn b k.
         if rgn = home then Returns sample_object
         else Throws (redirect_error (b @ ''.s3.'' @ home @ ''.amazonaws.com'')))\<rparr>"

text \<open>A store that answers every request with a redirect to the given endpoint.\<close>

definition store_redirecting :: "string \<Rightarrow> s3_store" where
  "store_redirecting endpoint =
     \<lparr>sendGetBucketLocation = (\<lambda>sent rgn b. Throws (redirect_error endpoint)),
      sendGetObject = (\<lambda>sent rgn b k. Throws (redirect_error endpoint))\<rparr>"

text \<open>Parsers standing for \<^verbatim>\<open>parseS3Url\<close> on one input each.\<close>

definition parser_returning :: "S3Object \<Rightarrow> string \<Rightarrow> S3Object outcome" where
  "parser_returning obj u = Returns obj"

definition parser_throwing :: "js_error \<Rightarrow> string \<Rightarrow> S3Object outcome" where
  "parser_throwing e u = Throws e"

subsection \<open>The POSIX variant of node:path\<close>

text \<open>
  \<^verbatim>\<open>path.posix\<close> as Node.js implements it, for the five functions above. It is used
  only to run the model on concrete paths.
\<close>

definition isSlash :: "char \<Rightarrow> bool" where
  "isSlash c = (c = CHR ''/'')"

fun splitSlash :: "string \<Rightarrow> string list" where
  "splitSlash [] = [[]]"
| "splitSlash (c # cs) =
     (if isSlash c then [] # splitSlash cs
      else (case splitSlash cs of
              [] \<Rightarrow> [[c]]
            | seg # segs \<Rightarrow> (c # seg) # segs))"

fun joinSlash :: "string list \<Rightarrow> string" where
  "joinSlash [] = []"
| "joinSlash [seg] = seg"
| "joinSlash (seg # segs) = seg @ ''/'' @ joinSlash segs"

text \<open>\<^verbatim>\<open>normalizeString\<close>, on the segments between slashes.\<close>

fun normalizeSegments :: "bool \<Rightarrow> string list \<Rightarrow> string list \<Rightarrow> string list" where
  "normalizeSegments allowAboveRoot res [] = res"
| "normalizeSegments allowAboveRoot res (seg # segs) =
     (if seg = [] \<or> seg = ''.'' then normalizeSegments allowAboveRoot res segs
      else if seg = ''..''
      then (if res \<noteq> [] \<and> last res \<noteq> ''..''
            then normalizeSegments allowAboveRoot (butlast res) segs
            else if allowAboveRoot
            then normalizeSegments allowAboveRoot (res @ [''..'']) segs
            else normalizeSegments allowAboveRoot res segs)
      else normalizeSegments allowAboveRoot (res @ [seg]) segs)"

definition posix_isAbsolute :: "string \<Rightarrow> bool" where
  "posix_isAbsolute p = (case p of [] \<Rightarrow> False | c # cs \<Rightarrow> isSlash c)"

definition posix_normalize :: "string \<Rightarrow> string" where
  "posix_normalize p =
     (if p = [] then ''.''
      else (let isAbsolute = posix_isAbsolute p;
                trailingSeparator = isSlash (last p);
                body = joinSlash (normalizeSegments (\<not> isAbsolute) [] (splitSlash p))
            in if body = []
               then (if isAbsolute then ''/'' else if trailingSeparator then ''./'' else ''.'')
               else (if isAbsolute then ''/'' else []) @ body
                      @ (if trailingSeparator then ''/'' else [])))"

definition posix_join :: "string \<Rightarrow> string \<Rightarrow> string" where
  "posix_join a b =
     (let joined = (if a = [] then b else if b = [] then a else a @ ''/'' @ b)
      in if joined = [] then ''.'' else posix_normalize joined)"

text \<open>The last component of a path, trailing slashes ignored.\<close>

definition lastComponent :: "string \<Rightarrow> string" where
  "lastComponent p = rev (takeWhile (\<lambda>c. \<not> isSlash c) (dropWhile isSlash (rev p)))"

definition posix_extname :: "string \<Rightarrow> string" where
  "posix_extname p =
     (let comp = lastComponent p;
          afterDot = rev (takeWhile (\<lambda>c. c \<noteq> CHR ''.'') (rev comp));
          beforeDot = take (length comp - length afterDot - 1) comp
      in if CHR ''.'' \<notin> set comp \<or> beforeDot = [] \<or> comp = ''..'' then []
         else drop (length beforeDot) comp)"

definition posix_basename :: "string \<Rightarrow> string \<Rightarrow> string" where
  "posix_basename p suffix =
     (let comp = lastComponent p;
          trailing = takeWhile isSlash (rev p)
      in if suffix \<noteq> [] \<and> length suffix \<le> length p
         then (if suffix = p then []
               else if length suffix \<le> length comp
                       \<and> drop (length comp - length suffix) comp = suffix
               then (if comp = suffix then comp
                     else take (length comp - length suffix) comp)
               else if length comp < length suffix
                       \<and> drop (length suffix - length comp) suffix = comp
               then comp @ trailing
               else comp)
         else comp)"

definition posix_dirname :: "string \<Rightarrow> string" where
  "posix_dirname p =
     (case p of
        [] \<Rightarrow> ''.''
      | c # cs \<Rightarrow>
          (let hasRoot = isSlash c;
               upToSlash = dropWhile (\<lambda>d. \<not> isSlash d) (dropWhile isSlash (rev cs));
               end = length upToSlash
           in if upToSlash = [] then (if hasRoot then ''/'' else ''.'')
              else if hasRoot \<and> end = 1 then ''//''
              else take end p))"

definition posix_path :: node_path where
  "posix_path =
     \<lparr>path_join = posix_join, path_extname = posix_extname, path_basename = posix_basename,
      path_isAbsolute = posix_isAbsolute, path_dirname = posix_dirname\<rparr>"

text \<open>
  A Linux host with the given existing paths, configuration and dialog answer. A path
  exists when it is listed or was the target of an earlier call; no call fails.
\<close>

definition fs_target :: "fs_call \<Rightarrow> string" where
  "fs_target c =
     (case c of MkdirRecursive p \<Rightarrow> p | CreateWriteStream p \<Rightarrow> p | Pipeline p content \<Rightarrow> p)"

definition linux_host :: "string list \<Rightarrow> S3DownloaderSettings \<Rightarrow> string list option \<Rightarrow> host" where
  "linux_host existing cfg answer =
     \<lparr>host_path = posix_path,
      host_fs = \<lparr>fs_existsSync = (\<lambda>calls p. List.member (existing @ map fs_target calls) p),
                 fs_mkdirSync = (\<lambda>calls p. None),
                 fs_createWriteStream = (\<lambda>calls p. None),
                 fs_pipeline = (\<lambda>calls p content. None),
                 fs_statSync_size = (\<lambda>calls p. Returns 8)\<rparr>,
      os_platform = ''linux'', os_homedir = ''/home/me'', os_tmpdir = ''/tmp'',
      env_USERPROFILE = None, env_XDG_DOWNLOAD_DIR = None, workspaceFolders = None,
      configuration = cfg,
      showOpenDialog = (\<lambda>defaultFolder filename. answer)\<rparr>"

definition settings_custom :: "string \<Rightarrow> bool \<Rightarrow> S3DownloaderSettings" where
  "settings_custom customPath alwaysPrompt =
     \<lparr>downloadLocation = ''custom'', customDownloadPath = customPath,
      alwaysPromptForLocation = alwaysPrompt\<rparr>"

definition sample_download :: DownloadConfig where
  "sample_download =
     \<lparr>DownloadConfig.stream = ''%PDF-1.7'', fileName = ''a.txt'', folder = None,
      overwrite = False\<rparr>"

section \<open>Facts about the endpoint pattern and about trimming\<close>

text \<open>
  The anchored matcher agrees with the declarative reading of the pattern: the text "s3",
  a dot or a hyphen, a non-empty group of class characters, then ".amazonaws.com".
\<close>

lemma endpointMatchHere_iff:
  "endpointMatchHere s = Some grp \<longleftrightarrow>
     (\<exists>sep rest. s = ''s3'' @ [sep] @ grp @ ''.amazonaws.com'' @ rest
        \<and> (sep = CHR ''.'' \<or> sep = CHR ''-'') \<and> grp \<noteq> [] \<and> (\<forall>c\<in>set grp. isRegionChar c))"
  (is "?L = ?R")
proof
  assume ?L
  then obtain a b c rest where s: "s = a # b # c # rest"
    by (cases s rule: endpointMatchHere.cases) auto
  from \<open>?L\<close> s have abc: "a = CHR ''s''" "b = CHR ''3''" "c = CHR ''.'' \<or> c = CHR ''-''"
    and g: "grp = takeWhile isRegionChar rest" "grp \<noteq> []"
    and t: "take 14 (dropWhile isRegionChar rest) = ''.amazonaws.com''"
    by (auto simp: Let_def split: if_splits)
  have "rest = grp @ dropWhile isRegionChar rest" using g by simp
  moreover have "dropWhile isRegionChar rest = ''.amazonaws.com'' @ drop 14 (dropWhile isRegionChar rest)"
    using t by (metis append_take_drop_id)
  ultimately have "rest = grp @ ''.amazonaws.com'' @ drop 14 (dropWhile isRegionChar rest)" by metis
  moreover have "\<forall>c\<in>set grp. isRegionChar c" using g by (auto dest: set_takeWhileD)
  ultimately show ?R using s abc g by auto
next
  assume ?R
  then obtain sep rest where s: "s = ''s3'' @ [sep] @ grp @ ''.amazonaws.com'' @ rest"
    and sep: "sep = CHR ''.'' \<or> sep = CHR ''-''" and g: "grp \<noteq> []" "\<forall>c\<in>set grp. isRegionChar c"
    by blast
  have nd: "\<not> isRegionChar (CHR ''.'')" by (simp add: isRegionChar_def)
  have tw: "takeWhile isRegionChar (grp @ ''.amazonaws.com'' @ rest) = grp"
    using g nd by simp
  have dw: "dropWhile isRegionChar (grp @ ''.amazonaws.com'' @ rest) = ''.amazonaws.com'' @ rest"
    using g nd by simp
  show ?L using s sep g tw dw by (auto simp: Let_def)
qed

text \<open>The global endpoint names no region: the pattern does not match it at all.\<close>

lemma endpointMatch_global_endpoint:
  "endpointMatch ''my-bucket.s3.amazonaws.com'' = None"
  by (simp add: isRegionChar_def)

lemma endpointMatch_regional_endpoint:
  "endpointMatch ''my-bucket.s3.eu-central-1.amazonaws.com'' = Some ''eu-central-1''"
  by (simp add: isRegionChar_def)

lemma last_in_dropWhile:
  "xs \<noteq> [] \<Longrightarrow> \<not> P (last xs) \<Longrightarrow> last xs \<in> set (dropWhile P xs)"
  by (induction xs) auto

lemma trim_endsWithSlash: "endsWithSlash k \<Longrightarrow> trim k \<noteq> []"
proof -
  assume e: "endsWithSlash k"
  have ns: "\<not> isWhiteSpace (CHR ''/'')" by (simp add: isWhiteSpace_def)
  from e have "k \<noteq> []" "\<not> isWhiteSpace (last k)"
    using ns by (auto simp: endsWithSlash_def)
  then have "last k \<in> set (dropWhile isWhiteSpace k)"
    by (rule last_in_dropWhile)
  with e ns show ?thesis
    by (auto simp: trim_def endsWithSlash_def dropWhile_eq_Nil_conv)
qed

lemma redirectRegion_Some:
  "redirectRegion error = Some r \<longleftrightarrow>
     isPermanentRedirect error \<and> r \<noteq> ''s3'' \<and>
     (\<exists>msg. err_message error = Some msg \<and> endpointMatch msg = Some r)"
  by (auto simp: redirectRegion_def split: option.splits)

lemma redirectRegion_never_s3: "redirectRegion error \<noteq> Some ''s3''"
  by (auto simp: redirectRegion_def split: option.splits)

lemma getS3Object_fetch_sent:
  "\<exists>more. snd (getS3Object_fetch store rgn config sent)
           = sent @ [GetObjectCommand rgn (bucket config) (key config)] @ more"
  by (auto simp: getS3Object_fetch_def Let_def split: outcome.splits option.splits)

section \<open>Region discovery\<close>

text \<open>
  C8. Region discovery asks a client bound to us-east-1. When the query returns, an absent
  location marker (undefined, or the empty string, which JavaScript also treats as absent)
  resolves to us-east-1, the legacy marker "EU" resolves to eu-west-1, and every other
  marker is returned as it is.
\<close>

theorem detectBucketRegion_marker:
  assumes "sendGetBucketLocation store sent ''us-east-1'' b = Returns response"
  shows "detectBucketRegion store b sent =
           (Returns (case LocationConstraint response of
                       None \<Rightarrow> ''us-east-1''
                     | Some m \<Rightarrow> if m = [] then ''us-east-1''
                                 else if m = ''EU'' then ''eu-west-1'' else m),
            sent @ [GetBucketLocationCommand ''us-east-1'' b])"
  using assms by (simp add: detectBucketRegion_def or_else_def Let_def split: option.splits)

theorem detectBucketRegion_marker_witness:
  "detectBucketRegion (store_located None) ''my-bucket'' [] =
     (Returns ''us-east-1'', [GetBucketLocationCommand ''us-east-1'' ''my-bucket''])
   \<and> detectBucketRegion (store_located (Some ''EU'')) ''my-bucket'' [] =
     (Returns ''eu-west-1'', [GetBucketLocationCommand ''us-east-1'' ''my-bucket''])
   \<and> detectBucketRegion (store_located (Some ''ap-south-1'')) ''my-bucket'' [] =
     (Returns ''ap-south-1'', [GetBucketLocationCommand ''us-east-1'' ''my-bucket''])"
  using detectBucketRegion_marker [of "store_located None" "[]" "''my-bucket''" "\<lparr>LocationConstraint = None\<rparr>"]
        detectBucketRegion_marker [of "store_located (Some ''EU'')" "[]" "''my-bucket''" "\<lparr>LocationConstraint = Some ''EU''\<rparr>"]
        detectBucketRegion_marker [of "store_located (Some ''ap-south-1'')" "[]" "''my-bucket''" "\<lparr>LocationConstraint = Some ''ap-south-1''\<rparr>"]
  by (simp add: store_located_def)

text \<open>
  C10. A token matched out of a failure's message is a region only when it differs from
  "s3". When the matched token is "s3", no region is extracted: region discovery throws its
  "Could not determine bucket region" error, and the object fetch rethrows the failure
  without a second request.
\<close>

theorem s3_token_is_no_region:
  assumes "err_message error = Some msg" and "endpointMatch msg = Some ''s3''"
  shows "redirectRegion error = None
     \<and> (sendGetBucketLocation store sent ''us-east-1'' b = Throws error \<longrightarrow>
           detectBucketRegion store b sent =
             (Throws (new_Error (''Could not determine bucket region: '' @ or_else (Some msg) ''Unknown error'')),
              sent @ [GetBucketLocationCommand ''us-east-1'' b]))
     \<and> (sendGetObject store sent rgn (bucket config) (key config) = Throws error \<longrightarrow>
           getS3Object_fetch store rgn config sent =
             (Throws error, sent @ [GetObjectCommand rgn (bucket config) (key config)]))"
proof -
  have r: "redirectRegion error = None"
    using assms by (simp add: redirectRegion_def)
  have d: "detectBucketRegion store b sent =
             (Throws (new_Error (''Could not determine bucket region: '' @ or_else (Some msg) ''Unknown error'')),
              sent @ [GetBucketLocationCommand ''us-east-1'' b])"
    if "sendGetBucketLocation store sent ''us-east-1'' b = Throws error"
    using that r assms(1) by (simp add: detectBucketRegion_def Let_def)
  have f: "getS3Object_fetch store rgn config sent =
             (Throws error, sent @ [GetObjectCommand rgn (bucket config) (key config)])"
    if "sendGetObject store sent rgn (bucket config) (key config) = Throws error"
    using that r by (simp add: getS3Object_fetch_def Let_def)
  from r d f show ?thesis by blast
qed

theorem s3_token_is_no_region_witness:
  "endpointMatch (''The bucket must be addressed using the endpoint '' @ ''s3.s3.amazonaws.com'') = Some ''s3''
   \<and> redirectRegion (redirect_error ''s3.s3.amazonaws.com'') = None
   \<and> detectBucketRegion (store_redirecting ''s3.s3.amazonaws.com'') ''my-bucket'' [] =
       (Throws (new_Error ''Could not determine bucket region: The bucket must be addressed using the endpoint s3.s3.amazonaws.com''),
        [GetBucketLocationCommand ''us-east-1'' ''my-bucket''])
   \<and> getS3Object_fetch (store_redirecting ''s3.s3.amazonaws.com'') ''us-east-1''
        \<lparr>bucket = ''my-bucket'', key = ''reports/q1.pdf'', region = None\<rparr> [] =
       (Throws (redirect_error ''s3.s3.amazonaws.com''),
        [GetObjectCommand ''us-east-1'' ''my-bucket'' ''reports/q1.pdf''])"
proof -
  let ?msg = "''The bucket must be addressed using the endpoint '' @ ''s3.s3.amazonaws.com''"
  let ?e = "redirect_error ''s3.s3.amazonaws.com''"
  let ?st = "store_redirecting ''s3.s3.amazonaws.com''"
  let ?c = "\<lparr>bucket = ''my-bucket'', key = ''reports/q1.pdf'', region = None\<rparr>"
  have m: "err_message ?e = Some ?msg" by (simp add: redirect_error_def)
  have t: "endpointMatch ?msg = Some ''s3''" by (simp add: isRegionChar_def)
  have l: "sendGetBucketLocation ?st [] ''us-east-1'' ''my-bucket'' = Throws ?e"
    by (simp add: store_redirecting_def)
  have g: "sendGetObject ?st [] ''us-east-1'' (bucket ?c) (key ?c) = Throws ?e"
    by (simp add: store_redirecting_def)
  show ?thesis
    using t l g
          s3_token_is_no_region [OF m t, of ?st "[]" "''my-bucket''" "''us-east-1''" ?c]
    by (simp add: or_else_def)
qed

section \<open>Object retrieval\<close>

text \<open>
  C3. A locator without a region, a location query that fails, and a failure from which no
  region is extracted: \<open>getS3Object\<close> does not stop there. The region becomes
  \<open>AWS_REGION\<close> when that variable is set and not empty, us-east-1 otherwise, and the
  next request sent is the object fetch against a client bound to that region; the
  result of \<open>getS3Object\<close> is the result of that fetch.
\<close>

theorem region_fallback_proceeds:
  assumes "region config = None \<or> region config = Some []"
    and "sendGetBucketLocation store sent ''us-east-1'' (bucket config) = Throws error"
    and "redirectRegion error = None"
  shows "getS3Object store AWS_REGION config sent =
           getS3Object_fetch store
             (case AWS_REGION of None \<Rightarrow> ''us-east-1''
              | Some r \<Rightarrow> if r = [] then ''us-east-1'' else r)
             config (sent @ [GetBucketLocationCommand ''us-east-1'' (bucket config)])
     \<and> (\<exists>more. snd (getS3Object store AWS_REGION config sent) =
           sent @ [GetBucketLocationCommand ''us-east-1'' (bucket config),
                   GetObjectCommand (case AWS_REGION of None \<Rightarrow> ''us-east-1''
                                     | Some r \<Rightarrow> if r = [] then ''us-east-1'' else r)
                                    (bucket config) (key config)] @ more)"
proof -
  let ?r = "case AWS_REGION of None \<Rightarrow> ''us-east-1'' | Some r \<Rightarrow> if r = [] then ''us-east-1'' else r"
  let ?sent = "sent @ [GetBucketLocationCommand ''us-east-1'' (bucket config)]"
  have d: "detectBucketRegion store (bucket config) sent =
             (Throws (new_Error (''Could not determine bucket region: ''
                                  @ or_else (err_message error) ''Unknown error'')), ?sent)"
    using assms(2,3) by (simp add: detectBucketRegion_def Let_def)
  have "getS3Object_region store AWS_REGION config sent = (?r, ?sent)"
    using assms(1) d by (auto simp: getS3Object_region_def or_else_def truthy_def)
  then have eq: "getS3Object store AWS_REGION config sent = getS3Object_fetch store ?r config ?sent"
    by (simp add: getS3Object_def)
  from getS3Object_fetch_sent [of store ?r config ?sent]
  have "\<exists>more. snd (getS3Object store AWS_REGION config sent) =
           sent @ [GetBucketLocationCommand ''us-east-1'' (bucket config),
                   GetObjectCommand ?r (bucket config) (key config)] @ more"
    unfolding eq by simp
  with eq show ?thesis by blast
qed

theorem region_fallback_proceeds_witness:
  "getS3Object (store_in ''eu-west-1'') (Some ''eu-west-1'')
      \<lparr>bucket = ''my-bucket'', key = ''reports/q1.pdf'', region = None\<rparr> [] =
     (Returns \<lparr>stream = ''%PDF-1.7'', contentLength = Some 8,
               contentType = Some ''application/pdf'', metadata = None\<rparr>,
      [GetBucketLocationCommand ''us-east-1'' ''my-bucket'',
       GetObjectCommand ''eu-west-1'' ''my-bucket'' ''reports/q1.pdf''])
   \<and> getS3Object (store_in ''us-east-1'') None
      \<lparr>bucket = ''my-bucket'', key = ''reports/q1.pdf'', region = None\<rparr> [] =
     (Returns \<lparr>stream = ''%PDF-1.7'', contentLength = Some 8,
               contentType = Some ''application/pdf'', metadata = None\<rparr>,
      [GetBucketLocationCommand ''us-east-1'' ''my-bucket'',
       GetObjectCommand ''us-east-1'' ''my-bucket'' ''reports/q1.pdf''])"
proof -
  let ?c = "\<lparr>bucket = ''my-bucket'', key = ''reports/q1.pdf'', region = None\<rparr>"
  let ?res = "Returns \<lparr>stream = ''%PDF-1.7'', contentLength = Some 8,
               contentType = Some ''application/pdf'', metadata = None\<rparr>"
  have n: "region ?c = None \<or> region ?c = Some []" by simp
  have r: "redirectRegion access_denied = None"
    by (simp add: redirectRegion_def isPermanentRedirect_def access_denied_def)
  have l: "sendGetBucketLocation (store_in h) [] ''us-east-1'' (bucket ?c) = Throws access_denied" for h
    by (simp add: store_in_def)
  have f: "getS3Object_fetch (store_in h) h ?c [GetBucketLocationCommand ''us-east-1'' ''my-bucket''] =
             (?res, [GetBucketLocationCommand ''us-east-1'' ''my-bucket'',
                     GetObjectCommand h ''my-bucket'' ''reports/q1.pdf''])" for h
    by (simp add: getS3Object_fetch_def store_in_def toDownloadResult_def sample_object_def)
  show ?thesis
    using region_fallback_proceeds [OF n l r, of "''eu-west-1''" "Some ''eu-west-1''"]
          region_fallback_proceeds [OF n l r, of "''us-east-1''" None]
          f [of "''eu-west-1''"] f [of "''us-east-1''"]
    by simp
qed

text \<open>
  C1, as the code has it. When the fetch fails with a permanent redirect (the error name
  PermanentRedirect or the status 301) whose message holds a region token other than "s3",
  \<open>getS3Object\<close> sends exactly one more fetch, through a client bound to that region,
  and the completion of that second request is the completion of \<open>getS3Object\<close>: a
  response is returned (or is the "no content" error), and whatever the second request
  throws, another redirect included, is thrown on unchanged and is not retried.
\<close>

theorem redirect_retried_once:
  assumes "getS3Object_region store AWS_REGION config sent0 = (rgn, sent)"
    and "sendGetObject store sent rgn (bucket config) (key config) = Throws error"
    and "isPermanentRedirect error"
    and "err_message error = Some msg"
    and "endpointMatch msg = Some r"
    and "r \<noteq> ''s3''"
  shows "getS3Object store AWS_REGION config sent0 =
           (case sendGetObject store (sent @ [GetObjectCommand rgn (bucket config) (key config)])
                   r (bucket config) (key config) of
              Returns response \<Rightarrow> toDownloadResult response
            | Throws e2 \<Rightarrow> Throws e2,
            sent @ [GetObjectCommand rgn (bucket config) (key config),
                    GetObjectCommand r (bucket config) (key config)])"
proof -
  have "redirectRegion error = Some r"
    using assms(3-6) by (simp add: redirectRegion_Some)
  then show ?thesis
    using assms(1,2)
    by (simp add: getS3Object_def getS3Object_fetch_def Let_def split: outcome.splits)
qed

theorem redirect_retried_once_witness:
  "getS3Object (store_in ''eu-central-1'') None
      \<lparr>bucket = ''my-bucket'', key = ''reports/q1.pdf'', region = Some ''us-east-1''\<rparr> [] =
     (Returns \<lparr>stream = ''%PDF-1.7'', contentLength = Some 8,
               contentType = Some ''application/pdf'', metadata = None\<rparr>,
      [GetObjectCommand ''us-east-1'' ''my-bucket'' ''reports/q1.pdf'',
       GetObjectCommand ''eu-central-1'' ''my-bucket'' ''reports/q1.pdf''])"
proof -
  let ?c = "\<lparr>bucket = ''my-bucket'', key = ''reports/q1.pdf'', region = Some ''us-east-1''\<rparr>"
  let ?st = "store_in ''eu-central-1''"
  let ?e = "redirect_error ''my-bucket.s3.eu-central-1.amazonaws.com''"
  let ?msg = "''The bucket must be addressed using the endpoint '' @ ''my-bucket.s3.eu-central-1.amazonaws.com''"
  have a1: "getS3Object_region ?st None ?c [] = (''us-east-1'', [])"
    by (simp add: getS3Object_region_def truthy_def)
  have a2: "sendGetObject ?st [] ''us-east-1'' (bucket ?c) (key ?c) = Throws ?e"
    by (simp add: store_in_def)
  have a3: "isPermanentRedirect ?e"
    by (simp add: isPermanentRedirect_def redirect_error_def)
  have a4: "err_message ?e = Some ?msg" by (simp add: redirect_error_def)
  have a5: "endpointMatch ?msg = Some ''eu-central-1''" by (simp add: isRegionChar_def)
  have a6: "''eu-central-1'' \<noteq> ''s3''" by simp
  show ?thesis
    using redirect_retried_once [OF a1 a2 a3 a4 a5 a6]
    by (simp add: store_in_def toDownloadResult_def sample_object_def)
qed

text \<open>
  The last clause of C1 as the specification words it fails: when the retry is redirected
  too, what \<open>getS3Object\<close> throws is the second PermanentRedirect failure itself.
  Nothing named RedirectLoop is produced.
\<close>

theorem redirect_loop_counterexample:
  "getS3Object (store_redirecting ''my-bucket.s3.eu-central-1.amazonaws.com'') None
      \<lparr>bucket = ''my-bucket'', key = ''reports/q1.pdf'', region = Some ''us-east-1''\<rparr> [] =
     (Throws (redirect_error ''my-bucket.s3.eu-central-1.amazonaws.com''),
      [GetObjectCommand ''us-east-1'' ''my-bucket'' ''reports/q1.pdf'',
       GetObjectCommand ''eu-central-1'' ''my-bucket'' ''reports/q1.pdf''])
   \<and> err_name (redirect_error ''my-bucket.s3.eu-central-1.amazonaws.com'') = Some ''PermanentRedirect''
   \<and> err_name (redirect_error ''my-bucket.s3.eu-central-1.amazonaws.com'') \<noteq> Some ''RedirectLoop''"
  by (simp add: getS3Object_def getS3Object_region_def truthy_def getS3Object_fetch_def Let_def
        store_redirecting_def redirectRegion_def isPermanentRedirect_def redirect_error_def
        isRegionChar_def)

section \<open>Parsing and validating the URI\<close>






text \<open>
  C4. \<open>parseAndValidateS3Uri\<close> returns a locator for every input and every behaviour of
  \<^verbatim>\<open>parseS3Url\<close>; it never throws. When \<^verbatim>\<open>parseS3Url\<close> throws, the locator is
  invalid, its bucket and key are empty, and its message is "Failed to parse S3 URI: "
  followed by the message of the thrown \<open>Error\<close> (or by "Invalid S3 URI format" when
  the thrown value is not an \<open>Error\<close>).
\<close>

theorem parse_never_throws:
  "\<exists>parsed. parseAndValidateS3Uri parseS3Url uri = Returns parsed
     \<and> (\<forall>e. trim uri \<noteq> [] \<and> parseS3Url (trim uri) = Throws e \<longrightarrow>
          parsed = \<lparr>bucket = [], key = [], region = None, isValid = False,
                    errorMessage = Some (''Failed to parse S3 URI: '' @
                      (if err_isError e then template (err_message e)
                       else ''Invalid S3 URI format''))\<rparr>)"
  by (auto simp: parseAndValidateS3Uri_def parseAndValidateS3Uri_try_def Let_def
           split: outcome.splits)

theorem parse_never_throws_witness:
  "parseAndValidateS3Uri (parser_throwing (new_Error ''Invalid S3 URL'')) ''not a uri'' =
     Returns \<lparr>bucket = [], key = [], region = None, isValid = False,
              errorMessage = Some ''Failed to parse S3 URI: Invalid S3 URL''\<rparr>"
proof -
  let ?p = "parser_throwing (new_Error ''Invalid S3 URL'')"
  have t: "trim ''not a uri'' = ''not a uri''" by (simp add: trim_def isWhiteSpace_def)
  have th: "?p (trim ''not a uri'') = Throws (new_Error ''Invalid S3 URL'')"
    by (simp add: parser_throwing_def)
  from parse_never_throws [of ?p "''not a uri''"]
  obtain parsed where r: "parseAndValidateS3Uri ?p ''not a uri'' = Returns parsed"
    and m: "\<forall>e. trim ''not a uri'' \<noteq> [] \<and> ?p (trim ''not a uri'') = Throws e \<longrightarrow>
          parsed = \<lparr>bucket = [], key = [], region = None, isValid = False,
                    errorMessage = Some (''Failed to parse S3 URI: '' @
                      (if err_isError e then template (err_message e)
                       else ''Invalid S3 URI format''))\<rparr>"
    by blast
  from m th t have "parsed = \<lparr>bucket = [], key = [], region = None, isValid = False,
                    errorMessage = Some (''Failed to parse S3 URI: '' @
                      (if err_isError (new_Error ''Invalid S3 URL'')
                       then template (err_message (new_Error ''Invalid S3 URL''))
                       else ''Invalid S3 URI format''))\<rparr>"
    by simp
  with r show ?thesis by (simp add: new_Error_def template_def)
qed

text \<open>
  C7. When \<^verbatim>\<open>parseS3Url\<close> returns bucket, key and region and the key ends with "/",
  the locator carries them, is invalid, and its message says that the URI must point to
  a file, not a directory. So it is for "s3://bucket/dir/", parsed into the bucket
  "bucket" and the key "dir/".
\<close>

theorem directory_key_is_invalid:
  assumes "trim uri \<noteq> []"
    and "parseS3Url (trim uri) = Returns obj"
    and "endsWithSlash (key obj)"
  shows "parseAndValidateS3Uri parseS3Url uri =
           Returns \<lparr>bucket = bucket obj, key = key obj, region = region obj, isValid = False,
                    errorMessage = Some ''S3 URI must point to a file, not a directory (URI ends with /)''\<rparr>"
proof -
  from assms(3) have "key obj \<noteq> []"
    by (simp add: endsWithSlash_def)
  moreover from assms(3) have "trim (key obj) \<noteq> []"
    by (rule trim_endsWithSlash)
  ultimately have "key obj \<noteq> []" "trim (key obj) \<noteq> []" .
  with assms show ?thesis
    by (simp add: parseAndValidateS3Uri_def parseAndValidateS3Uri_try_def Let_def)
qed

theorem directory_key_is_invalid_witness:
  "parseAndValidateS3Uri
       (parser_returning \<lparr>bucket = ''bucket'', key = ''dir/'', region = None\<rparr>)
       ''s3://bucket/dir/'' =
     Returns \<lparr>bucket = ''bucket'', key = ''dir/'', region = None, isValid = False,
              errorMessage = Some ''S3 URI must point to a file, not a directory (URI ends with /)''\<rparr>"
proof -
  let ?obj = "\<lparr>bucket = ''bucket'', key = ''dir/'', region = None\<rparr>"
  have t: "trim ''s3://bucket/dir/'' \<noteq> []" by (simp add: trim_def isWhiteSpace_def)
  have p: "parser_returning ?obj (trim ''s3://bucket/dir/'') = Returns ?obj"
    by (simp add: parser_returning_def)
  have e: "endsWithSlash (key ?obj)" by (simp add: endsWithSlash_def)
  show ?thesis
    using directory_key_is_invalid [of "''s3://bucket/dir/''" "parser_returning ?obj" ?obj, OF t p e]
    by simp
qed

section \<open>Destination folder\<close>

lemma logmsg_supplied: "logmsg True level msg lg = lg @ [(level, msg)]"
  by (simp add: logmsg_def)

lemma getCustomDownloadFolder_bad:
  assumes "p = [] \<or> trim p = [] \<or> \<not> path_isAbsolute (host_path h) p
           \<or> \<not> fs_existsSync (host_fs h) calls (path_dirname (host_path h) p)"
  shows "getCustomDownloadFolder h calls p logger lg =
           (getSystemDownloadsFolder h,
            if p = [] \<or> trim p = []
            then logmsg logger WARNING ''Custom download path is empty, falling back to Downloads folder'' lg
            else if \<not> path_isAbsolute (host_path h) p
            then logmsg logger WARNING ''Falling back to Downloads folder''
                   (logmsg logger ERROR (''Custom download path must be absolute: '' @ p) lg)
            else logmsg logger WARNING ''Falling back to Downloads folder''
                   (logmsg logger ERROR
                      (''Parent directory does not exist: '' @ path_dirname (host_path h) p)
                      (logmsg logger DEBUG (''Using custom download path: '' @ p) lg)))"
  using assms by (auto simp: getCustomDownloadFolder_def Let_def)

text \<open>
  With "always prompt" on, the strategy and the custom path are not looked at: the result
  is \<open>None\<close>, and the caller prompts.
\<close>

lemma always_prompt_ignores_strategy:
  assumes "alwaysPromptForLocation (getSettings h)"
  shows "getConfiguredDownloadFolder h calls logger lg =
           (None, logmsg logger DEBUG ''Always prompt for location is enabled'' lg)"
  using assms by (simp add: getConfiguredDownloadFolder_def)

text \<open>
  C6. A custom path that is empty or blank, not absolute, or whose parent directory does
  not exist makes \<open>getCustomDownloadFolder\<close> return the downloads folder; what a
  supplied logger receives ends with a warning about the fallback, after an error line in
  the second and third case. Where the dispatch reaches the strategy "custom",
  \<open>getConfiguredDownloadFolder\<close> returns that folder, and \<open>downloadToFile\<close>, given
  no folder of its own, goes on with it: the bad custom path makes neither the resolution
  nor the operation throw.
\<close>

theorem bad_custom_path_falls_back:
  assumes "p = [] \<or> trim p = [] \<or> \<not> path_isAbsolute (host_path h) p
           \<or> \<not> fs_existsSync (host_fs h) calls (path_dirname (host_path h) p)"
  shows "getCustomDownloadFolder h calls p logger lg =
           (getSystemDownloadsFolder h,
            if p = [] \<or> trim p = []
            then logmsg logger WARNING ''Custom download path is empty, falling back to Downloads folder'' lg
            else if \<not> path_isAbsolute (host_path h) p
            then logmsg logger WARNING ''Falling back to Downloads folder''
                   (logmsg logger ERROR (''Custom download path must be absolute: '' @ p) lg)
            else logmsg logger WARNING ''Falling back to Downloads folder''
                   (logmsg logger ERROR
                      (''Parent directory does not exist: '' @ path_dirname (host_path h) p)
                      (logmsg logger DEBUG (''Using custom download path: '' @ p) lg)))
       \<and> (\<not> alwaysPromptForLocation (getSettings h)
            \<and> downloadLocation (getSettings h) = ''custom''
            \<and> customDownloadPath (getSettings h) = p \<longrightarrow>
            getConfiguredDownloadFolder h calls logger lg =
              (Some (getSystemDownloadsFolder h),
               snd (getCustomDownloadFolder h calls p logger lg))
            \<and> (truthy (folder config) = None \<and> getSystemDownloadsFolder h \<noteq> [] \<longrightarrow>
                 downloadToFile_folder h config logger calls lg =
                   (Returns (getSystemDownloadsFolder h),
                    logmsg logger DEBUG
                      (''Using configured download folder: '' @ getSystemDownloadsFolder h)
                      (snd (getCustomDownloadFolder h calls p logger lg)))))"
proof -
  note c = getCustomDownloadFolder_bad [OF assms, of logger lg]
  have g: "getConfiguredDownloadFolder h calls logger lg =
             (Some (getSystemDownloadsFolder h), snd (getCustomDownloadFolder h calls p logger lg))"
    if "\<not> alwaysPromptForLocation (getSettings h)"
      and "downloadLocation (getSettings h) = ''custom''"
      and "customDownloadPath (getSettings h) = p"
    using that c by (simp add: getConfiguredDownloadFolder_def)
  have f: "downloadToFile_folder h config logger calls lg =
             (Returns (getSystemDownloadsFolder h),
              logmsg logger DEBUG
                (''Using configured download folder: '' @ getSystemDownloadsFolder h)
                (snd (getCustomDownloadFolder h calls p logger lg)))"
    if "\<not> alwaysPromptForLocation (getSettings h)"
      and "downloadLocation (getSettings h) = ''custom''"
      and "customDownloadPath (getSettings h) = p"
      and "truthy (folder config) = None" and "getSystemDownloadsFolder h \<noteq> []"
    using g [OF that(1-3)] that(4,5)
    by (simp add: downloadToFile_folder_def truthy_def)
  from c g f show ?thesis by blast
qed

theorem bad_custom_path_falls_back_witness:
  "getCustomDownloadFolder (linux_host [''/home/me''] (settings_custom [] False) None) [] [] True [] =
     (''/home/me/Downloads'',
      [(WARNING, ''Custom download path is empty, falling back to Downloads folder'')])
   \<and> getCustomDownloadFolder (linux_host [''/home/me''] (settings_custom ''rel/dir'' False) None) []
        ''rel/dir'' True [] =
     (''/home/me/Downloads'',
      [(ERROR, ''Custom download path must be absolute: rel/dir''),
       (WARNING, ''Falling back to Downloads folder'')])
   \<and> getConfiguredDownloadFolder (linux_host [''/home/me''] (settings_custom ''/nowhere/dir'' False) None)
        [] True [] =
     (Some ''/home/me/Downloads'',
      [(DEBUG, ''Using custom download path: /nowhere/dir''),
       (ERROR, ''Parent directory does not exist: /nowhere''),
       (WARNING, ''Falling back to Downloads folder'')])
   \<and> downloadToFile_folder (linux_host [''/home/me''] (settings_custom ''/nowhere/dir'' False) None)
        sample_download True [] [] =
     (Returns ''/home/me/Downloads'',
      [(DEBUG, ''Using custom download path: /nowhere/dir''),
       (ERROR, ''Parent directory does not exist: /nowhere''),
       (WARNING, ''Falling back to Downloads folder''),
       (DEBUG, ''Using configured download folder: /home/me/Downloads'')])"
proof -
  let ?h = "\<lambda>p. linux_host [''/home/me''] (settings_custom p False) None"
  have a: "\<not> alwaysPromptForLocation (getSettings (?h p))" for p
    by (simp add: getSettings_def linux_host_def settings_custom_def)
  have b: "downloadLocation (getSettings (?h p)) = ''custom''" for p
    by (simp add: getSettings_def linux_host_def settings_custom_def)
  have c: "customDownloadPath (getSettings (?h p)) = p" for p
    by (simp add: getSettings_def linux_host_def settings_custom_def)
  have dl: "getSystemDownloadsFolder (?h p) = ''/home/me/Downloads''" for p
    by code_simp
  have abs1: "\<not> path_isAbsolute (host_path (?h p)) ''rel/dir''" for p
    by code_simp
  have abs2: "path_isAbsolute (host_path (?h p)) ''/nowhere/dir''" for p
    by code_simp
  have dir: "path_dirname (host_path (?h p)) ''/nowhere/dir'' = ''/nowhere''" for p
    by code_simp
  have nex: "\<not> fs_existsSync (host_fs (?h p)) [] ''/nowhere''" for p
    by code_simp
  have t2: "trim ''rel/dir'' \<noteq> []" and t3: "trim ''/nowhere/dir'' \<noteq> []"
    by code_simp+
  have f: "truthy (folder sample_download) = None"
    by (simp add: sample_download_def truthy_def)
  have d1: "([]::string) = [] \<or> trim [] = [] \<or> \<not> path_isAbsolute (host_path (?h [])) []
           \<or> \<not> fs_existsSync (host_fs (?h [])) [] (path_dirname (host_path (?h [])) [])"
    by simp
  have d2: "''rel/dir'' = [] \<or> trim ''rel/dir'' = [] \<or> \<not> path_isAbsolute (host_path (?h ''rel/dir'')) ''rel/dir''
           \<or> \<not> fs_existsSync (host_fs (?h ''rel/dir'')) [] (path_dirname (host_path (?h ''rel/dir'')) ''rel/dir'')"
    using abs1 by simp
  have d3: "''/nowhere/dir'' = [] \<or> trim ''/nowhere/dir'' = []
           \<or> \<not> path_isAbsolute (host_path (?h ''/nowhere/dir'')) ''/nowhere/dir''
           \<or> \<not> fs_existsSync (host_fs (?h ''/nowhere/dir'')) []
                 (path_dirname (host_path (?h ''/nowhere/dir'')) ''/nowhere/dir'')"
    using nex dir by simp
  show ?thesis
    using bad_custom_path_falls_back [OF d1, of True "[]" sample_download]
          bad_custom_path_falls_back [OF d2, of True "[]" sample_download]
          bad_custom_path_falls_back [OF d3, of True "[]" sample_download]
          a b c f dl abs1 abs2 dir t2 t3
    by (simp add: logmsg_supplied)
qed

section \<open>Materializing the file\<close>

text \<open>
  The file name that \<open>downloadWithProgress\<close> passes on is \<open>extractFilename\<close> of the
  key. For a key that does not end with "/" it holds no "/", and for such a name the POSIX
  functions split it into a stem and an extension that concatenate to the name again: the
  suffix of \<open>suffixedPath\<close> then sits between the two.
\<close>

lemma extractFilename_no_slash:
  assumes "\<not> endsWithSlash k"
  shows "CHR ''/'' \<notin> set (extractFilename k)"
proof (cases "k = []")
  case True
  then show ?thesis by (simp add: extractFilename_def)
next
  case False
  with assms have l: "last k \<noteq> CHR ''/''" by (simp add: endsWithSlash_def)
  from False l have ne: "takeWhile (\<lambda>c. c \<noteq> CHR ''/'') (rev k) \<noteq> []"
    by (simp add: takeWhile_eq_Nil_iff hd_rev)
  have "CHR ''/'' \<notin> set (takeWhile (\<lambda>c. c \<noteq> CHR ''/'') (rev k))"
    by (auto dest: set_takeWhileD)
  with ne show ?thesis by (simp add: extractFilename_def Let_def)
qed

lemma lastComponent_no_slash:
  assumes "CHR ''/'' \<notin> set f"
  shows "lastComponent f = f"
proof -
  have a: "\<forall>c\<in>set (rev f). \<not> isSlash c" using assms by (auto simp: isSlash_def)
  then have d: "dropWhile isSlash (rev f) = rev f"
    by (cases "rev f") auto
  have t: "takeWhile (\<lambda>c. \<not> isSlash c) (rev f) = rev f"
    using a by (simp add: takeWhile_eq_all_conv)
  show ?thesis unfolding lastComponent_def d t by simp
qed

lemma posix_name_and_ext:
  assumes "CHR ''/'' \<notin> set f"
  shows "posix_basename f (posix_extname f) @ posix_extname f = f"
proof (cases "posix_extname f = []")
  case True
  then show ?thesis using lastComponent_no_slash [OF assms] by (simp add: posix_basename_def)
next
  case False
  define afterDot where "afterDot = rev (takeWhile (\<lambda>c. c \<noteq> CHR ''.'') (rev f))"
  define n where "n = length f - length afterDot - 1"
  from False have e: "posix_extname f = drop n f" and b: "take n f \<noteq> []"
    unfolding posix_extname_def lastComponent_no_slash [OF assms] Let_def afterDot_def n_def
    by (auto split: if_splits)
  from b have n: "0 < n" "f \<noteq> []" by auto
  from False e have nl: "n < length f" by simp
  have "drop n f \<noteq> f" using n nl
    by (metis b append_take_drop_id self_append_conv2)
  then show ?thesis
    using e n nl lastComponent_no_slash [OF assms] False
    by (auto simp: posix_basename_def Let_def)
qed

lemma getUniqueFilePath_loop_scan:
  assumes "ex p" and "c \<le> k" and "\<forall>j. c \<le> j \<and> j < k \<longrightarrow> ex (cand j)" and "\<not> ex (cand k)"
  shows "getUniqueFilePath_loop ex cand p c = Some (cand k)"
  using assms
proof (induction "k - c" arbitrary: c p)
  case 0
  then have "c = k" by simp
  with 0 show ?case
    by (simp add: getUniqueFilePath_loop.simps [of ex cand p] getUniqueFilePath_loop.simps [of ex cand "cand k"])
next
  case (Suc n)
  then have lt: "c < k" by simp
  with Suc.prems have e: "ex (cand c)" by simp
  have "getUniqueFilePath_loop ex cand (cand c) (c + 1) = Some (cand k)"
  proof (rule Suc.hyps(1))
    show "n = k - (c + 1)" using Suc.hyps(2) by simp
    show "ex (cand c)" by (rule e)
    show "c + 1 \<le> k" using lt by simp
    show "\<forall>j. c + 1 \<le> j \<and> j < k \<longrightarrow> ex (cand j)" using Suc.prems(3) by simp
    show "\<not> ex (cand k)" by (rule Suc.prems(4))
  qed
  with Suc.prems(1) show ?case
    by (simp add: getUniqueFilePath_loop.simps [of ex cand p])
qed

text \<open>
  C5. With \<open>overwrite\<close> unset, the final path is \<^verbatim>\<open>path.join(folder, fileName)\<close> when
  nothing exists there. Otherwise it is the path with the suffix \<open>_k\<close> put between the
  file name without its extension and the extension, for the least \<open>k \<ge> 1\<close> whose path
  does not exist: the scan ends and returns that path.
\<close>

theorem lowest_free_suffix_wins:
  assumes "\<not> overwrite config"
  shows "(\<not> fs_existsSync (host_fs h) calls (path_join (host_path h) dir (fileName config)) \<longrightarrow>
            downloadToFile_finalPath h config calls dir =
              Some (path_join (host_path h) dir (fileName config)))
       \<and> (fs_existsSync (host_fs h) calls (path_join (host_path h) dir (fileName config))
            \<and> 1 \<le> k
            \<and> (\<forall>j. 1 \<le> j \<and> j < k \<longrightarrow>
                    fs_existsSync (host_fs h) calls (suffixedPath h dir (fileName config) j))
            \<and> \<not> fs_existsSync (host_fs h) calls (suffixedPath h dir (fileName config) k) \<longrightarrow>
            downloadToFile_finalPath h config calls dir =
              Some (suffixedPath h dir (fileName config) k))
       \<and> suffixedPath h dir (fileName config) k =
           path_join (host_path h) dir
             (path_basename (host_path h) (fileName config)
                (path_extname (host_path h) (fileName config))
              @ ''_'' @ decimal k @ path_extname (host_path h) (fileName config))"
proof (intro conjI impI)
  assume "\<not> fs_existsSync (host_fs h) calls (path_join (host_path h) dir (fileName config))"
  with assms show "downloadToFile_finalPath h config calls dir =
              Some (path_join (host_path h) dir (fileName config))"
    by (simp add: downloadToFile_finalPath_def getUniqueFilePath_def)
next
  assume a: "fs_existsSync (host_fs h) calls (path_join (host_path h) dir (fileName config))
            \<and> 1 \<le> k
            \<and> (\<forall>j. 1 \<le> j \<and> j < k \<longrightarrow>
                    fs_existsSync (host_fs h) calls (suffixedPath h dir (fileName config) j))
            \<and> \<not> fs_existsSync (host_fs h) calls (suffixedPath h dir (fileName config) k)"
  then have "getUniqueFilePath_loop (fs_existsSync (host_fs h) calls)
               (suffixedPath h dir (fileName config))
               (path_join (host_path h) dir (fileName config)) 1 =
             Some (suffixedPath h dir (fileName config) k)"
    by (intro getUniqueFilePath_loop_scan) auto
  with a assms show "downloadToFile_finalPath h config calls dir =
              Some (suffixedPath h dir (fileName config) k)"
    by (simp add: downloadToFile_finalPath_def getUniqueFilePath_def)
next
  show "suffixedPath h dir (fileName config) k =
           path_join (host_path h) dir
             (path_basename (host_path h) (fileName config)
                (path_extname (host_path h) (fileName config))
              @ ''_'' @ decimal k @ path_extname (host_path h) (fileName config))"
    by (simp add: suffixedPath_def Let_def)
qed

theorem lowest_free_suffix_wins_witness:
  "downloadToFile_finalPath (linux_host [''/dl''] (settings_custom '''' False) None)
       sample_download [] ''/dl'' = Some ''/dl/a.txt''
   \<and> downloadToFile_finalPath (linux_host [''/dl'', ''/dl/a.txt''] (settings_custom '''' False) None)
       sample_download [] ''/dl'' = Some ''/dl/a_1.txt''
   \<and> downloadToFile_finalPath (linux_host [''/dl'', ''/dl/a.txt'', ''/dl/a_1.txt''] (settings_custom '''' False) None)
       sample_download [] ''/dl'' = Some ''/dl/a_2.txt''"
proof -
  let ?h = "\<lambda>existing. linux_host existing (settings_custom '''' False) None"
  let ?ha = "?h [''/dl'']"
  let ?hb = "?h [''/dl'', ''/dl/a.txt'']"
  let ?hc = "?h [''/dl'', ''/dl/a.txt'', ''/dl/a_1.txt'']"
  have ov: "\<not> overwrite sample_download" by (simp add: sample_download_def)
  have fn: "fileName sample_download = ''a.txt''" by (simp add: sample_download_def)
  have j: "path_join (host_path (?h e)) ''/dl'' ''a.txt'' = ''/dl/a.txt''" for e
    by code_simp
  have s1: "suffixedPath (?h e) ''/dl'' ''a.txt'' 1 = ''/dl/a_1.txt''" for e
    by code_simp
  have s2: "suffixedPath (?h e) ''/dl'' ''a.txt'' 2 = ''/dl/a_2.txt''" for e
    by code_simp
  have e0: "\<not> fs_existsSync (host_fs ?ha) [] ''/dl/a.txt''" by code_simp
  have e1: "fs_existsSync (host_fs ?hb) [] ''/dl/a.txt''"
    "\<not> fs_existsSync (host_fs ?hb) [] ''/dl/a_1.txt''" by code_simp+
  have e2: "fs_existsSync (host_fs ?hc) [] ''/dl/a.txt''"
    "fs_existsSync (host_fs ?hc) [] ''/dl/a_1.txt''"
    "\<not> fs_existsSync (host_fs ?hc) [] ''/dl/a_2.txt''" by code_simp+
  have none: "\<forall>j. 1 \<le> j \<and> j < (1::nat) \<longrightarrow>
            fs_existsSync (host_fs ?hb) [] (suffixedPath ?hb ''/dl'' ''a.txt'' j)"
    by simp
  have one: "\<forall>j. 1 \<le> j \<and> j < (2::nat) \<longrightarrow>
            fs_existsSync (host_fs ?hc) [] (suffixedPath ?hc ''/dl'' ''a.txt'' j)"
  proof (intro allI impI)
    fix j :: nat assume "1 \<le> j \<and> j < 2"
    then have "j = 1" by simp
    then show "fs_existsSync (host_fs ?hc) [] (suffixedPath ?hc ''/dl'' ''a.txt'' j)"
      using e2(2) s1 [of "[''/dl'', ''/dl/a.txt'', ''/dl/a_1.txt'']"] by simp
  qed
  show ?thesis
    using lowest_free_suffix_wins [OF ov, of ?ha "[]" "''/dl''" 1]
          lowest_free_suffix_wins [OF ov, of ?hb "[]" "''/dl''" 1]
          lowest_free_suffix_wins [OF ov, of ?hc "[]" "''/dl''" 2]
          fn j s1 s2 e0 e1 e2 none one
    by simp
qed

text \<open>
  C9. When no folder was passed, the configured folder calls for a prompt, and the prompt
  is cancelled, \<open>downloadToFile\<close> throws "Download cancelled - no folder selected" and
  has issued no call that changes the file system: no folder is created and no file is
  written.
\<close>

theorem cancelled_prompt_writes_nothing:
  assumes "truthy (folder config) = None"
    and "truthy (fst (getConfiguredDownloadFolder h calls logger lg)) = None"
    and "promptForDownloadLocation h (getSystemDownloadsFolder h) (fileName config) = None"
  shows "downloadToFile h config logger calls lg =
           Some (Throws (new_Error ''Download cancelled - no folder selected''), calls,
                 snd (getConfiguredDownloadFolder h calls logger lg))"
proof -
  obtain configuredFolder lg1
    where g: "getConfiguredDownloadFolder h calls logger lg = (configuredFolder, lg1)"
    by (cases "getConfiguredDownloadFolder h calls logger lg")
  with assms(2) have "truthy configuredFolder = None" by simp
  with assms(1,3) g
  have "downloadToFile_folder h config logger calls lg =
          (Throws (new_Error ''Download cancelled - no folder selected''), lg1)"
    by (simp add: downloadToFile_folder_def truthy_def)
  with g show ?thesis by (simp add: downloadToFile_def)
qed

theorem cancelled_prompt_writes_nothing_witness:
  "downloadToFile (linux_host [''/home/me''] (settings_custom '''' True) None)
       sample_download True [] [] =
     Some (Throws (new_Error ''Download cancelled - no folder selected''), [],
           [(DEBUG, ''Always prompt for location is enabled'')])"
proof -
  let ?h = "linux_host [''/home/me''] (settings_custom '''' True) None"
  have g: "getConfiguredDownloadFolder ?h [] True [] =
             (None, [(DEBUG, ''Always prompt for location is enabled'')])"
    by code_simp
  have a: "truthy (folder sample_download) = None"
    by (simp add: sample_download_def truthy_def)
  have b: "truthy (fst (getConfiguredDownloadFolder ?h [] True [])) = None"
    using g by (simp add: truthy_def)
  have c: "promptForDownloadLocation ?h (getSystemDownloadsFolder ?h) (fileName sample_download) = None"
    by (simp add: promptForDownloadLocation_def linux_host_def)
  show ?thesis
    using cancelled_prompt_writes_nothing [OF a b c] g by simp
qed

end
